theory Spec2Isabelle
  imports Main "HOL-Library.Word"
begin

chapter \<open>The GHArchive data-lake pipeline: ingester and transformer\<close>

section \<open>Dates and \<open>strftime\<close>\<close>

text \<open>
  A naive Python \<open>datetime\<close> (no time zone), as the batch drivers build it with
  \<open>datetime.strptime\<close> and \<open>replace(hour=...)\<close>. The constructor of the class admits
  only the field ranges of \<open>valid_datetime\<close> (the day bound is the loosest one, 31).
\<close>

record datetime =
  year :: nat
  month :: nat
  day :: nat
  hour :: nat
  minute :: nat
  second :: nat
  microsecond :: nat

definition valid_datetime :: "datetime \<Rightarrow> bool" where
  "valid_datetime dt =
     (1 \<le> year dt \<and> year dt \<le> 9999 \<and> 1 \<le> month dt \<and> month dt \<le> 12 \<and>
      1 \<le> day dt \<and> day dt \<le> 31 \<and> hour dt < 24 \<and> minute dt < 60 \<and>
      second dt < 60 \<and> microsecond dt < 1000000)"

definition digit_char :: "nat \<Rightarrow> char" where
  "digit_char n = ''0123456789'' ! (n mod 10)"

text \<open>The decimal numeral of a natural number, most significant digit first.\<close>

fun dec :: "nat \<Rightarrow> string" where
  "dec n = (if n < 10 then [digit_char n] else dec (n div 10) @ [digit_char n])"

declare dec.simps [simp del]

definition zero_pad :: "nat \<Rightarrow> string \<Rightarrow> string" where
  "zero_pad w s = replicate (w - length s) (CHR ''0'') @ s"

text \<open>
  The conversions of \<open>strftime\<close> that the repository's format strings use, as the C
  library of the platform renders them (the platform whose flag \<open>-\<close> the code relies on in
  \<open>%-H\<close>): \<open>%Y\<close> is the year as a decimal number, not padded, so a year below 1000 has
  fewer than four digits; \<open>%m %d %H %M %S\<close> are padded with zeros to two digits; the flag
  \<open>-\<close> drops the padding. A conversion outside this table is copied to the output as it
  stands.
\<close>

definition conversion :: "bool \<Rightarrow> char \<Rightarrow> datetime \<Rightarrow> string option" where
  "conversion padded c dt =
     (let fmt = (\<lambda>w n. if padded then zero_pad w (dec n) else dec n) in
      if c = CHR ''Y'' then Some (dec (year dt))
      else if c = CHR ''m'' then Some (fmt 2 (month dt))
      else if c = CHR ''d'' then Some (fmt 2 (day dt))
      else if c = CHR ''H'' then Some (fmt 2 (hour dt))
      else if c = CHR ''M'' then Some (fmt 2 (minute dt))
      else if c = CHR ''S'' then Some (fmt 2 (second dt))
      else if c = CHR ''%'' then Some ''%''
      else None)"

fun strftime :: "datetime \<Rightarrow> string \<Rightarrow> string" where
  "strftime dt [] = []"
| "strftime dt [c] = [c]"
| "strftime dt (c # d # cs) =
     (if c \<noteq> CHR ''%'' then c # strftime dt (d # cs)
      else if d = CHR ''-'' then
        (case cs of
           [] \<Rightarrow> [c, d]
         | e # es \<Rightarrow>
             (case conversion False e dt of
                Some s \<Rightarrow> s @ strftime dt es
              | None \<Rightarrow> c # d # e # strftime dt es))
      else
        (case conversion True d dt of
           Some s \<Rightarrow> s @ strftime dt cs
         | None \<Rightarrow> c # d # strftime dt cs))"

text \<open>
  \<open>str(process_date)\<close>, which the error log of the ingester formats: ISO format with
  a blank between date and time, the microseconds only when they are not zero.
\<close>

definition str_datetime :: "datetime \<Rightarrow> string" where
  "str_datetime dt =
     zero_pad 4 (dec (year dt)) @ ''-'' @ zero_pad 2 (dec (month dt)) @ ''-'' @
     zero_pad 2 (dec (day dt)) @ '' '' @ zero_pad 2 (dec (hour dt)) @ '':'' @
     zero_pad 2 (dec (minute dt)) @ '':'' @ zero_pad 2 (dec (second dt)) @
     (if microsecond dt = 0 then [] else ''.'' @ zero_pad 6 (dec (microsecond dt)))"

section \<open>The ingester: source file name and sink key\<close>

text \<open>\<open>DataLakeIngester._generate_sink_key\<close> (data_lake_ingester.py, lines 325-341).\<close>

definition generate_sink_key :: "datetime \<Rightarrow> string \<Rightarrow> string \<Rightarrow> string" where
  "generate_sink_key process_date filename sink_base_path =
     (let date_partition = strftime process_date ''%Y-%m-%d'';
          hour_partition = strftime process_date ''%H''
      in sink_base_path @ ''/'' @ date_partition @ ''/'' @ hour_partition @ ''/'' @ filename)"

text \<open>
  The first statements of \<open>ingest_hourly_gharchive\<close> (lines 262-264): the name of the
  hourly dump and its URL.
\<close>

definition date_hour_of :: "datetime \<Rightarrow> string" where
  "date_hour_of process_date = strftime process_date ''%Y-%m-%d-%-H''"

definition data_filename :: "datetime \<Rightarrow> string" where
  "data_filename process_date = date_hour_of process_date @ ''.json.gz''"

definition data_url :: "datetime \<Rightarrow> string" where
  "data_url process_date = ''http://data.gharchive.org/'' @ data_filename process_date"

text \<open>
  The layouts as the specification words them, to compare the code with: the date as
  \<open>YYYY-MM-DD\<close> (a year of four digits), the hour as two digits \<open>HH\<close>, and the hour
  without a leading zero. \<open>date_partition\<close> is the date as the code renders it, for every
  year.
\<close>

definition spec_date :: "datetime \<Rightarrow> string" where
  "spec_date dt =
     [digit_char (year dt div 1000), digit_char (year dt div 100), digit_char (year dt div 10),
      digit_char (year dt), CHR ''-'', digit_char (month dt div 10), digit_char (month dt),
      CHR ''-'', digit_char (day dt div 10), digit_char (day dt)]"

definition date_partition :: "datetime \<Rightarrow> string" where
  "date_partition dt =
     dec (year dt) @ [CHR ''-'', digit_char (month dt div 10), digit_char (month dt),
                      CHR ''-'', digit_char (day dt div 10), digit_char (day dt)]"

definition spec_hour_padded :: "nat \<Rightarrow> string" where
  "spec_hour_padded h = [digit_char (h div 10), digit_char h]"

definition spec_hour_unpadded :: "nat \<Rightarrow> string" where
  "spec_hour_unpadded h = (if h < 10 then [digit_char h] else [digit_char (h div 10), digit_char h])"

section \<open>The transformer: names of the exported files\<close>

text \<open>
  \<open>str(uuid.uuid4())\<close>: the 128-bit value of the identifier as 32 hexadecimal digits,
  padded with zeros, in the groups 8-4-4-4-12. The random value is an argument of the
  model, as is the clock that \<open>datetime.now()\<close> reads.
\<close>

definition hex_char :: "nat \<Rightarrow> char" where
  "hex_char n = ''0123456789abcdef'' ! (n mod 16)"

fun hex :: "nat \<Rightarrow> string" where
  "hex n = (if n < 16 then [hex_char n] else hex (n div 16) @ [hex_char n])"

declare hex.simps [simp del]

definition str_uuid :: "nat \<Rightarrow> string" where
  "str_uuid u =
     (let h = zero_pad 32 (hex u)
      in take 8 h @ ''-'' @ take 4 (drop 8 h) @ ''-'' @ take 4 (drop 12 h) @ ''-'' @
         take 4 (drop 16 h) @ ''-'' @ drop 20 h)"

text \<open>\<open>sep.join(parts)\<close> and \<open>parts.insert(i, x)\<close> for a position \<open>i \<ge> 0\<close>.\<close>

fun join :: "string \<Rightarrow> string list \<Rightarrow> string" where
  "join sep [] = []"
| "join sep [x] = x"
| "join sep (x # y # xs) = x @ sep @ join sep (y # xs)"

definition list_insert :: "nat \<Rightarrow> 'a \<Rightarrow> 'a list \<Rightarrow> 'a list" where
  "list_insert i x xs = take i xs @ x # drop i xs"

text \<open>The truth value of an optional string: \<open>None\<close> and the empty string are false.\<close>

definition truthy :: "string option \<Rightarrow> bool" where
  "truthy s = (case s of None \<Rightarrow> False | Some v \<Rightarrow> v \<noteq> [])"

text \<open>
  \<open>DataLakeTransformer._generate_export_filename\<close> (data_lake_transformer.py, lines
  154-167); \<open>now\<close> is the value of \<open>datetime.now()\<close> and \<open>uuid4\<close> the value of
  \<open>uuid.uuid4()\<close>.
\<close>

definition generate_export_filename ::
  "string \<Rightarrow> string \<Rightarrow> string option \<Rightarrow> datetime \<Rightarrow> nat \<Rightarrow> string" where
  "generate_export_filename data_type file_extension partition_key now uuid4 =
     (let timestamp = strftime now ''%Y%m%d%H%M%S'';
          unique_id = take 8 (str_uuid uuid4);
          filename_parts = [data_type, timestamp, unique_id];
          filename_parts = (if truthy partition_key
                            then list_insert 2 (the partition_key) filename_parts
                            else filename_parts)
      in join ''_'' filename_parts @ ''.'' @ file_extension)"

text \<open>\<open>DataLakeTransformer._create_sink_path\<close> (lines 119-130).\<close>

definition create_sink_path :: "string \<Rightarrow> string \<Rightarrow> string \<Rightarrow> datetime \<Rightarrow> nat \<Rightarrow> string" where
  "create_sink_path data_type sink_bucket sink_key_path now uuid4 =
     (let sink_filename = generate_export_filename data_type ''parquet'' None now uuid4
      in ''s3://'' @ sink_bucket @ ''/'' @ sink_key_path @ ''/'' @ sink_filename)"

text \<open>The timestamp as the specification words it, \<open>YYYYMMDDHHMMSS\<close>, and a digit test.\<close>

definition spec_timestamp :: "datetime \<Rightarrow> string" where
  "spec_timestamp dt =
     [digit_char (year dt div 1000), digit_char (year dt div 100), digit_char (year dt div 10),
      digit_char (year dt), digit_char (month dt div 10), digit_char (month dt),
      digit_char (day dt div 10), digit_char (day dt),
      digit_char (hour dt div 10), digit_char (hour dt),
      digit_char (minute dt div 10), digit_char (minute dt),
      digit_char (second dt div 10), digit_char (second dt)]"

definition is_digit :: "char \<Rightarrow> bool" where
  "is_digit c = (c \<in> set ''0123456789'')"

section \<open>Exceptions, the log and the outside world\<close>

text \<open>
  The errors of \<open>configparser\<close> that \<open>ConfigParser.get\<close> raises: a missing section, a
  missing option (option, section), and the three errors of value interpolation (option,
  section and, for a missing reference, the name referred to).
\<close>

datatype config_error =
    NoSectionError string
  | NoOptionError string string
  | InterpolationSyntaxError string string
  | InterpolationMissingOptionError string string string
  | InterpolationDepthError string string

text \<open>
  The exceptions (subclasses of \<open>Exception\<close>) that the repository raises or that reach it
  from its libraries. \<open>HTTPError\<close> carries the status code of its response;
  \<open>ConfigError\<close> is an error of \<open>configparser\<close> that no handler caught.
\<close>

datatype py_exception =
    HTTPError nat
  | ConfigError config_error
  | ConnectionError string
  | KeyError string
  | TypeError string
  | AttributeError string
  | FileNotFoundError string
  | S3UploadFailedError string
  | IOException string
  | BinderException string
  | ConversionException string
  | CatalogException string
  | OtherException string string

text \<open>
  A log record is a level and a formatted message. Where an f-string formats an exception
  \<open>e\<close>, the part \<open>StrOf e\<close> stands for \<open>str(e)\<close>.
\<close>

datatype level = INFO | ERROR

datatype fpart = Txt string | StrOf py_exception

type_synonym log_record = "level \<times> fpart list"

text \<open>
  What the code acts on outside itself: the log, the calls of \<open>boto3.client\<close> made so far
  (each with its keyword arguments), and the state of the storage sink.
\<close>

record 'st world =
  log :: "log_record list"
  boto3_calls :: "(string \<times> string) list list"
  sink :: 'st

definition logger :: "level \<Rightarrow> fpart list \<Rightarrow> 'st world \<Rightarrow> 'st world" where
  "logger lv m w = w\<lparr>log := log w @ [(lv, m)]\<rparr>"

section \<open>The HTTP collector\<close>

type_synonym bytes = "8 word list"

record bytesio =
  buffer :: bytes
  pos :: nat

definition BytesIO :: "bytes \<Rightarrow> bytesio" where
  "BytesIO initial_bytes = \<lparr>buffer = initial_bytes, pos = 0\<rparr>"

definition getvalue :: "bytesio \<Rightarrow> bytes" where
  "getvalue s = buffer s"

record response =
  status_code :: nat
  content :: bytes

text \<open>
  \<open>Response.raise_for_status\<close> of the requests library: it raises \<open>HTTPError\<close> for a
  status code from 400 to 599 and returns otherwise.
\<close>

definition raise_for_status :: "response \<Rightarrow> py_exception + unit" where
  "raise_for_status r =
     (if 400 \<le> status_code r \<and> status_code r < 600 then Inl (HTTPError (status_code r))
      else Inr ())"

text \<open>
  \<open>HttpDataCollector.collect\<close> (data_lake_ingester.py, lines 94-115). \<open>requests_get\<close> is
  \<open>requests.get\<close>: a response, or the exception of a failed connection. The value
  \<open>None\<close> is what a Python function returns when it falls off its end.
\<close>

definition collect ::
  "(string \<Rightarrow> py_exception + response) \<Rightarrow> string \<Rightarrow> 'st world \<Rightarrow>
   (py_exception + bytesio option) \<times> 'st world" where
  "collect requests_get source_url w =
     (let w1 = logger INFO [Txt (''Downloading data from: '' @ source_url)] w in
      case requests_get source_url of
        Inl e \<Rightarrow> (Inl e, w1)
      | Inr response \<Rightarrow>
          if status_code response = 200 then (Inr (Some (BytesIO (content response))), w1)
          else
            (let w2 = logger ERROR
                   [Txt (''Failed to download file from '' @ source_url @ ''. Status code: '' @
                         dec (status_code response))] w1 in
             case raise_for_status response of
               Inl e \<Rightarrow> (Inl e, w2)
             | Inr _ \<Rightarrow> (Inr None, w2)))"

section \<open>The ingester\<close>

text \<open>
  The collector and the storage of an ingester are objects behind the abstract classes
  \<open>DataCollector\<close> and \<open>DataStorage\<close>: here, the functions their methods \<open>collect\<close> and
  \<open>store\<close> compute. Each returns its value or the exception it raises, and the world it
  leaves.
\<close>

type_synonym 'st collector =
  "string \<Rightarrow> 'st world \<Rightarrow> (py_exception + bytesio option) \<times> 'st world"

type_synonym 'st storage =
  "bytesio option \<Rightarrow> string \<Rightarrow> 'st world \<Rightarrow> (py_exception + unit) \<times> 'st world"

text \<open>\<open>DataLakeIngester.ingest_hourly_gharchive\<close> (lines 249-279).\<close>

definition ingest_failed :: "datetime \<Rightarrow> py_exception \<Rightarrow> log_record" where
  "ingest_failed process_date e =
     (ERROR, [Txt (''Failed to ingest data for '' @ str_datetime process_date @ '': ''), StrOf e])"

definition ingest_hourly_gharchive ::
  "'st collector \<Rightarrow> 'st storage \<Rightarrow> string \<Rightarrow> datetime \<Rightarrow> 'st world \<Rightarrow>
   (py_exception + unit) \<times> 'st world" where
  "ingest_hourly_gharchive data_collector data_storage dataset_base_path process_date w =
     (let date_hour = date_hour_of process_date;
          filename = data_filename process_date;
          url = data_url process_date;
          s3_key = generate_sink_key process_date filename dataset_base_path
      in case data_collector url w of
           (Inl e, w1) \<Rightarrow> (Inl e, w1\<lparr>log := log w1 @ [ingest_failed process_date e]\<rparr>)
         | (Inr data, w1) \<Rightarrow>
             (case data_storage data s3_key w1 of
                (Inl e, w2) \<Rightarrow> (Inl e, w2\<lparr>log := log w2 @ [ingest_failed process_date e]\<rparr>)
              | (Inr _, w2) \<Rightarrow>
                  (Inr (), logger INFO [Txt (''Successfully ingested data for '' @ date_hour)] w2)))"

section \<open>Configuration and the construction of the ingester\<close>

text \<open>
  A \<open>ConfigParser\<close>: its default section and its named sections, each a list of options
  (stored under their lower-case names) with their raw values.
\<close>

record config =
  defaults :: "(string \<times> string) list"
  sections :: "(string \<times> (string \<times> string) list) list"

text \<open>\<open>optionxform\<close>: an option name is looked up in lower case.\<close>

definition ascii_lower :: "char \<Rightarrow> char" where
  "ascii_lower c =
     (case map_of (zip ''ABCDEFGHIJKLMNOPQRSTUVWXYZ'' ''abcdefghijklmnopqrstuvwxyz'') c of
        Some l \<Rightarrow> l
      | None \<Rightarrow> c)"








text \<open>
  \<open>str(e)\<close> of the two errors that the code formats (the text of the others is not
  used); \<open>py_repr\<close> is \<open>repr\<close> of a string that holds no quote, backslash or control
  character, as the names in the code are.
\<close>

definition py_repr :: "string \<Rightarrow> string" where
  "py_repr s = [CHR 0x27] @ s @ [CHR 0x27]"



record S3Credentials =
  aws_access_key_id :: string
  aws_secret_access_key :: string
  region_name :: "string option"
  endpoint_url :: "string option"




text \<open>
  The file system, the path of the default \<open>config.ini\<close> beside the module, and
  \<open>boto3.client\<close>, which returns a client or raises.
\<close>

record 'cl env =
  files :: "string \<Rightarrow> (py_exception + config) option"
  default_config_path :: string
  boto3_client :: "(string \<times> string) list \<Rightarrow> py_exception + 'cl"

text \<open>
  A configuration provider is the class \<open>FileConfigProvider\<close> with its optional path
  (lines 40-68), or another implementation of \<open>ConfigProvider\<close>, given by what its
  \<open>get_config\<close> returns or raises.
\<close>

datatype config_provider =
    FileConfigProvider "string option"
  | InjectedConfigProvider "py_exception + config"



text \<open>\<open>S3DataStorage.__init__\<close> and \<open>_create_s3_client\<close> (lines 139-176).\<close>

record 'cl s3_data_storage =
  credentials :: S3Credentials
  bucket :: string
  progress_callback :: "(nat \<Rightarrow> log_record) option"
  s3_client :: 'cl



text \<open>
  \<open>DataLakeIngester.__init__\<close> (lines 216-247). An argument left out, or passed as
  \<open>None\<close>, is \<open>None\<close> here.
\<close>

datatype 'st collector_obj = HttpDataCollector | InjectedCollector "'st collector"

datatype ('cl, 'st) storage_obj = S3DataStorage "'cl s3_data_storage" | InjectedStorage "'st storage"

record ('cl, 'st) ingester =
  dataset_base_path :: string
  ingester_config_provider :: config_provider
  ingester_config :: config
  data_collector :: "'st collector_obj"
  data_storage :: "('cl, 'st) storage_obj"




section \<open>Relations and the two queries of the transformer\<close>

text \<open>
  The relations of the DuckDB session: named, typed columns and rows of values. A
  timestamp is its number of microseconds since the epoch, a date its number of days. The
  values of a struct carry their field names.
\<close>

datatype sql_type =
  TBigInt | TVarchar | TBoolean | TTimestamp | TDate | TStruct "(string \<times> sql_type) list"

datatype sql_value =
    VNull
  | VBigInt int
  | VVarchar string
  | VBoolean bool
  | VTimestamp int
  | VDate int
  | VStruct "(string \<times> sql_value) list"

type_synonym row = "sql_value list"

record relation =
  columns :: "(string \<times> sql_type) list"
  rows :: "row list"

text \<open>
  The expressions of the two select lists: a column, a field of a struct
  (\<open>actor.id\<close>), \<open>CAST(e AS TIMESTAMP)\<close> and \<open>DATE_TRUNC('day', e)\<close>.
\<close>

datatype sql_expr =
    Col string
  | Field sql_expr string
  | CastTimestamp sql_expr
  | DateTruncDay sql_expr

text \<open>
  The engine resolves the names of columns and of struct fields without regard to the case
  of their letters: \<open>ci_lookup\<close> finds the first entry whose name is the wanted one in
  lower case.
\<close>

definition lowercase :: "string \<Rightarrow> string" where
  "lowercase s = map ascii_lower s"

definition ci_lookup :: "(string \<times> 'a) list \<Rightarrow> string \<Rightarrow> 'a option" where
  "ci_lookup xs c = map_of (map (\<lambda>(n, x). (lowercase n, x)) xs) (lowercase c)"

definition micros_per_day :: int where
  "micros_per_day = 86400000000"

text \<open>
  Binding, before any row is read: every column and struct field must exist, and the
  functions must accept the types of their arguments.
\<close>

fun bind_expr :: "(string \<times> sql_type) list \<Rightarrow> sql_expr \<Rightarrow> py_exception + sql_type" where
  "bind_expr cols (Col c) =
     (case ci_lookup cols c of
        None \<Rightarrow> Inl (BinderException (''Referenced column not found: '' @ c))
      | Some t \<Rightarrow> Inr t)"
| "bind_expr cols (Field e f) =
     (case bind_expr cols e of
        Inl x \<Rightarrow> Inl x
      | Inr (TStruct fs) \<Rightarrow>
          (case ci_lookup fs f of
             None \<Rightarrow> Inl (BinderException (''Could not find key in struct: '' @ f))
           | Some t \<Rightarrow> Inr t)
      | Inr _ \<Rightarrow> Inl (BinderException (''Cannot extract a field from a non-struct: '' @ f)))"
| "bind_expr cols (CastTimestamp e) =
     (case bind_expr cols e of
        Inl x \<Rightarrow> Inl x
      | Inr TTimestamp \<Rightarrow> Inr TTimestamp
      | Inr TVarchar \<Rightarrow> Inr TTimestamp
      | Inr TDate \<Rightarrow> Inr TTimestamp
      | Inr _ \<Rightarrow> Inl (BinderException ''Unimplemented type for cast to TIMESTAMP''))"
| "bind_expr cols (DateTruncDay e) =
     (case bind_expr cols e of
        Inl x \<Rightarrow> Inl x
      | Inr TTimestamp \<Rightarrow> Inr TTimestamp
      | Inr _ \<Rightarrow> Inl (BinderException ''No function matches date_trunc''))"

text \<open>
  Evaluation on one row. \<open>parse\<close> is the engine's conversion of a string to a
  timestamp; a string it rejects fails the query. A field of a \<open>NULL\<close> struct is
  \<open>NULL\<close>, and so are the cast and the truncation of \<open>NULL\<close>. Truncation to the day
  rounds the microseconds down to a multiple of a day; the day is kept here as the timestamp
  of its midnight (whether the engine presents it as a date or as a timestamp, the days are
  the same and so are the groups).
\<close>

fun eval_expr ::
  "(string \<Rightarrow> int option) \<Rightarrow> (string \<times> sql_type) list \<Rightarrow> row \<Rightarrow> sql_expr \<Rightarrow>
   py_exception + sql_value" where
  "eval_expr parse cols r (Col c) =
     (case ci_lookup (zip (map fst cols) r) c of
        None \<Rightarrow> Inl (BinderException (''Referenced column not found: '' @ c))
      | Some v \<Rightarrow> Inr v)"
| "eval_expr parse cols r (Field e f) =
     (case eval_expr parse cols r e of
        Inl x \<Rightarrow> Inl x
      | Inr VNull \<Rightarrow> Inr VNull
      | Inr (VStruct fs) \<Rightarrow>
          (case ci_lookup fs f of
             None \<Rightarrow> Inl (BinderException (''Could not find key in struct: '' @ f))
           | Some v \<Rightarrow> Inr v)
      | Inr _ \<Rightarrow> Inl (BinderException (''Cannot extract a field from a non-struct: '' @ f)))"
| "eval_expr parse cols r (CastTimestamp e) =
     (case eval_expr parse cols r e of
        Inl x \<Rightarrow> Inl x
      | Inr VNull \<Rightarrow> Inr VNull
      | Inr (VTimestamp t) \<Rightarrow> Inr (VTimestamp t)
      | Inr (VDate d) \<Rightarrow> Inr (VTimestamp (d * micros_per_day))
      | Inr (VVarchar s) \<Rightarrow>
          (case parse s of
             None \<Rightarrow> Inl (ConversionException (''Could not convert string to TIMESTAMP: '' @ s))
           | Some t \<Rightarrow> Inr (VTimestamp t))
      | Inr _ \<Rightarrow> Inl (ConversionException ''Unimplemented type for cast to TIMESTAMP''))"
| "eval_expr parse cols r (DateTruncDay e) =
     (case eval_expr parse cols r e of
        Inl x \<Rightarrow> Inl x
      | Inr VNull \<Rightarrow> Inr VNull
      | Inr (VTimestamp t) \<Rightarrow> Inr (VTimestamp (t - t mod micros_per_day))
      | Inr _ \<Rightarrow> Inl (BinderException ''No function matches date_trunc''))"

text \<open>The first failure of a list of results, or all their values.\<close>

fun collect_results :: "('e + 'a) list \<Rightarrow> 'e + 'a list" where
  "collect_results [] = Inr []"
| "collect_results (x # xs) =
     (case x of
        Inl e \<Rightarrow> Inl e
      | Inr v \<Rightarrow> (case collect_results xs of Inl e \<Rightarrow> Inl e | Inr vs \<Rightarrow> Inr (v # vs)))"

type_synonym select_list = "(sql_expr \<times> string) list"

definition project_row ::
  "(string \<Rightarrow> int option) \<Rightarrow> (string \<times> sql_type) list \<Rightarrow> select_list \<Rightarrow> row \<Rightarrow>
   py_exception + row" where
  "project_row parse cols sel r = collect_results (map (\<lambda>(e, n). eval_expr parse cols r e) sel)"

text \<open>\<open>SELECT e1 AS n1, ..., ek AS nk FROM rel\<close>: a projection, one output row per input row.\<close>

definition select_from ::
  "(string \<Rightarrow> int option) \<Rightarrow> select_list \<Rightarrow> relation \<Rightarrow> py_exception + relation" where
  "select_from parse sel rel =
     (case collect_results (map (\<lambda>(e, n). bind_expr (columns rel) e) sel) of
        Inl e \<Rightarrow> Inl e
      | Inr tys \<Rightarrow>
          (case collect_results (map (project_row parse (columns rel) sel) (rows rel)) of
             Inl e \<Rightarrow> Inl e
           | Inr rs \<Rightarrow> Inr \<lparr>columns = zip (map snd sel) tys, rows = rs\<rparr>))"

text \<open>
  \<open>SELECT e1 AS n1, ..., ek AS nk, count(*) AS c FROM rel GROUP BY ALL\<close>: the groups are
  the distinct values of the non-aggregated expressions, \<open>NULL\<close> being one value of a
  key like any other. The aggregation keeps one counter per group and passes over the
  rows once.
\<close>

fun bump :: "row \<Rightarrow> (row \<times> nat) list \<Rightarrow> (row \<times> nat) list" where
  "bump k [] = [(k, 1)]"
| "bump k ((k', n) # g) = (if k = k' then (k', Suc n) # g else (k', n) # bump k g)"

definition group_count :: "row list \<Rightarrow> (row \<times> nat) list" where
  "group_count keys = foldl (\<lambda>g k. bump k g) [] keys"

definition select_count_group_by_all ::
  "(string \<Rightarrow> int option) \<Rightarrow> select_list \<Rightarrow> string \<Rightarrow> relation \<Rightarrow> py_exception + relation" where
  "select_count_group_by_all parse sel count_name rel =
     (case collect_results (map (\<lambda>(e, n). bind_expr (columns rel) e) sel) of
        Inl e \<Rightarrow> Inl e
      | Inr tys \<Rightarrow>
          (case collect_results (map (project_row parse (columns rel) sel) (rows rel)) of
             Inl e \<Rightarrow> Inl e
           | Inr keys \<Rightarrow>
               Inr \<lparr>columns = zip (map snd sel) tys @ [(count_name, TBigInt)],
                    rows = map (\<lambda>(k, n). k @ [VBigInt (int n)]) (group_count keys)\<rparr>))"

text \<open>The select list of \<open>clean_raw_gharchive\<close> (data_lake_transformer.py, lines 81-93).\<close>

definition clean_select_list :: select_list where
  "clean_select_list =
     [(Col ''id'', ''event_id''),
      (Field (Col ''actor'') ''id'', ''user_id''),
      (Field (Col ''actor'') ''login'', ''user_name''),
      (Field (Col ''actor'') ''display_login'', ''user_display_name''),
      (Col ''type'', ''event_type''),
      (Field (Col ''repo'') ''id'', ''repo_id''),
      (Field (Col ''repo'') ''name'', ''repo_name''),
      (Field (Col ''repo'') ''url'', ''repo_url''),
      (Col ''created_at'', ''event_date'')]"

text \<open>The select list of \<open>aggregate_raw_gharchive\<close> (lines 105-115), before \<open>count(*)\<close>.\<close>

definition agg_select_list :: select_list where
  "agg_select_list =
     [(Col ''event_type'', ''event_type''),
      (Col ''repo_id'', ''repo_id''),
      (Col ''repo_name'', ''repo_name''),
      (Col ''repo_url'', ''repo_url''),
      (DateTruncDay (CastTimestamp (Col ''event_date'')), ''event_date'')]"

section \<open>The transformer\<close>

text \<open>
  The state of the DuckDB session and of the lake behind it: the tables of the
  connection, and the Parquet files written so far. The environment gives what the engine
  reads: \<open>read_json_auto\<close> of a path, the replacement scan of a name that is no table
  (a file of the lake), whether a Parquet file can be written at a path, the engine's
  conversion of strings to timestamps, and whether a connection can be opened with the
  extension \<open>httpfs\<close> installed and loaded.
\<close>

record duck =
  tables :: "(string \<times> relation) list"
  exported :: "(string \<times> relation) list"

record lake_env =
  read_json_auto :: "string \<Rightarrow> py_exception + relation"
  replacement_scan :: "string \<Rightarrow> py_exception + relation"
  parquet_error :: "string \<Rightarrow> py_exception option"
  parse_timestamp :: "string \<Rightarrow> int option"
  connection_error :: "py_exception option"

definition resolve :: "lake_env \<Rightarrow> string \<Rightarrow> duck world \<Rightarrow> py_exception + relation" where
  "resolve env name w =
     (case map_of (tables (sink w)) name of
        Some r \<Rightarrow> Inr r
      | None \<Rightarrow> replacement_scan env name)"

definition create_or_replace_table :: "string \<Rightarrow> relation \<Rightarrow> duck world \<Rightarrow> duck world" where
  "create_or_replace_table name r w =
     w\<lparr>sink := (sink w)\<lparr>tables := (name, r) # filter (\<lambda>(n, x). n \<noteq> name) (tables (sink w))\<rparr>\<rparr>"

text \<open>
  \<open>register_raw_gharchive\<close> (data_lake_transformer.py, lines 62-72). The result is the
  handle \<open>con.table("gharchive_raw")\<close>, here the name of the table, which is its alias.
\<close>

definition register_raw_gharchive ::
  "lake_env \<Rightarrow> string \<Rightarrow> duck world \<Rightarrow> (py_exception + string) \<times> duck world" where
  "register_raw_gharchive env source_path w =
     (let w1 = logger INFO [Txt (''DuckDB - collect source data files: '' @ source_path)] w in
      case read_json_auto env source_path of
        Inl e \<Rightarrow> (Inl e, w1)
      | Inr r \<Rightarrow> (Inr ''gharchive_raw'', create_or_replace_table ''gharchive_raw'' r w1))"

text \<open>\<open>clean_raw_gharchive\<close> (lines 74-96).\<close>

definition clean_raw_gharchive ::
  "lake_env \<Rightarrow> string \<Rightarrow> duck world \<Rightarrow> (py_exception + string) \<times> duck world" where
  "clean_raw_gharchive env raw_dataset w =
     (let w1 = logger INFO [Txt ''DuckDB - clean data''] w in
      case resolve env raw_dataset w1 of
        Inl e \<Rightarrow> (Inl e, w1)
      | Inr raw \<Rightarrow>
          (case select_from (parse_timestamp env) clean_select_list raw of
             Inl e \<Rightarrow> (Inl e, w1)
           | Inr r \<Rightarrow> (Inr ''gharchive_clean'', create_or_replace_table ''gharchive_clean'' r w1)))"

text \<open>\<open>aggregate_raw_gharchive\<close> (lines 98-117).\<close>

definition aggregate_raw_gharchive ::
  "lake_env \<Rightarrow> string \<Rightarrow> duck world \<Rightarrow> (py_exception + string) \<times> duck world" where
  "aggregate_raw_gharchive env raw_dataset w =
     (case resolve env raw_dataset w of
        Inl e \<Rightarrow> (Inl e, w)
      | Inr raw \<Rightarrow>
          (case select_count_group_by_all (parse_timestamp env) agg_select_list ''event_count'' raw of
             Inl e \<Rightarrow> (Inl e, w)
           | Inr r \<Rightarrow> (Inr ''gharchive_agg'', create_or_replace_table ''gharchive_agg'' r w)))"

text \<open>\<open>write_parquet\<close> of a table handle: the table as it is now goes to the path.\<close>

definition write_parquet ::
  "lake_env \<Rightarrow> string \<Rightarrow> string \<Rightarrow> duck world \<Rightarrow> (py_exception + unit) \<times> duck world" where
  "write_parquet env handle path w =
     (case map_of (tables (sink w)) handle of
        None \<Rightarrow> (Inl (CatalogException (''Table does not exist: '' @ handle)), w)
      | Some r \<Rightarrow>
          (case parquet_error env path of
             Some e \<Rightarrow> (Inl e, w)
           | None \<Rightarrow> (Inr (), w\<lparr>sink := (sink w)\<lparr>exported := exported (sink w) @ [(path, r)]\<rparr>\<rparr>)))"

text \<open>
  A \<open>DataLakeTransformer\<close> object: its instance attributes. \<open>__init__\<close> (lines 12-17)
  sets \<open>con\<close> and nothing else; the class defines no attribute \<open>logger\<close>. Reading an
  attribute that is not there raises \<open>AttributeError\<close>.
\<close>

datatype attr_value = Connection | LoggerObject

record transformer =
  attrs :: "(string \<times> attr_value) list"

definition getattr :: "transformer \<Rightarrow> string \<Rightarrow> py_exception + attr_value" where
  "getattr self name =
     (case map_of (attrs self) name of
        None \<Rightarrow> Inl (AttributeError (py_repr ''DataLakeTransformer'' @
                   '' object has no attribute '' @ py_repr name))
      | Some v \<Rightarrow> Inr v)"

definition DataLakeTransformer_init ::
  "lake_env \<Rightarrow> duck world \<Rightarrow> (py_exception + transformer) \<times> duck world" where
  "DataLakeTransformer_init env w =
     (case connection_error env of
        Some e \<Rightarrow> (Inl e, w)
      | None \<Rightarrow> (Inr \<lparr>attrs = [(''con'', Connection)]\<rparr>, w\<lparr>sink := (sink w)\<lparr>tables := []\<rparr>\<rparr>))"

text \<open>
  The handler shared by \<open>serialise_raw_data\<close> and \<open>aggregate_silver_data\<close> (lines 40-42
  and 58-60): \<open>self.logger.error(f"Error in ...: {str(e)}")\<close>, then \<open>raise\<close>. An
  exception raised while the handler runs replaces the one being handled.
\<close>

definition except_handler ::
  "string \<Rightarrow> transformer \<Rightarrow> py_exception \<Rightarrow> duck world \<Rightarrow> (py_exception + unit) \<times> duck world" where
  "except_handler fname self e w =
     (case getattr self ''logger'' of
        Inl a \<Rightarrow> (Inl a, w)
      | Inr LoggerObject \<Rightarrow> (Inl e, logger ERROR [Txt (''Error in '' @ fname @ '': ''), StrOf e] w)
      | Inr Connection \<Rightarrow>
          (Inl (AttributeError (py_repr ''DuckDBPyConnection'' @
                  '' object has no attribute '' @ py_repr ''error'')), w))"

text \<open>\<open>serialise_raw_data\<close> (lines 26-42).\<close>

definition serialise_raw_data ::
  "lake_env \<Rightarrow> transformer \<Rightarrow> string \<Rightarrow> string \<Rightarrow> string \<Rightarrow> datetime \<Rightarrow> nat \<Rightarrow> duck world \<Rightarrow>
   (py_exception + unit) \<times> duck world" where
  "serialise_raw_data env self source_path sink_bucket sink_key_path now uuid4 w =
     (case (case register_raw_gharchive env source_path w of
              (Inl e, w1) \<Rightarrow> (Inl e, w1)
            | (Inr gharchive_raw_result, w1) \<Rightarrow>
           (case clean_raw_gharchive env gharchive_raw_result w1 of
              (Inl e, w2) \<Rightarrow> (Inl e, w2)
            | (Inr gharchive_clean_result, w2) \<Rightarrow>
           (let sink_path = create_sink_path ''clean'' sink_bucket sink_key_path now uuid4;
                w3 = logger INFO
                       [Txt (''DuckDB - serialise and export cleaned data to '' @ sink_path)] w2
            in write_parquet env gharchive_clean_result sink_path w3))) of
        (Inl e, w') \<Rightarrow> except_handler ''serialise_raw_data'' self e w'
      | (Inr u, w') \<Rightarrow> (Inr (), w'))"

text \<open>\<open>aggregate_silver_data\<close> (lines 44-60).\<close>

definition aggregate_silver_data ::
  "lake_env \<Rightarrow> transformer \<Rightarrow> string \<Rightarrow> string \<Rightarrow> string \<Rightarrow> datetime \<Rightarrow> nat \<Rightarrow> duck world \<Rightarrow>
   (py_exception + unit) \<times> duck world" where
  "aggregate_silver_data env self source_path sink_bucket sink_key_path now uuid4 w =
     (case (let w1 = logger INFO [Txt (''DuckDB - aggregate raw data in '' @ source_path)] w in
            case aggregate_raw_gharchive env source_path w1 of
              (Inl e, w2) \<Rightarrow> (Inl e, w2)
            | (Inr gharchive_agg_result, w2) \<Rightarrow>
           (let sink_path = create_sink_path ''agg'' sink_bucket sink_key_path now uuid4;
                w3 = logger INFO [Txt (''DuckDB - export aggregated data to '' @ sink_path)] w2
            in write_parquet env gharchive_agg_result sink_path w3)) of
        (Inl e, w') \<Rightarrow> except_handler ''aggregate_silver_data'' self e w'
      | (Inr u, w') \<Rightarrow> (Inr (), w'))"

section \<open>The aggregation batch driver\<close>

text \<open>
  Calling the class with keyword arguments: \<open>__init__(self)\<close> takes none, so any keyword
  is a \<open>TypeError\<close> before the body of \<open>__init__\<close> runs.
\<close>

definition DataLakeTransformer_call ::
  "(string \<times> string) list \<Rightarrow> lake_env \<Rightarrow> duck world \<Rightarrow> (py_exception + transformer) \<times> duck world" where
  "DataLakeTransformer_call kwargs env w =
     (case kwargs of
        [] \<Rightarrow> DataLakeTransformer_init env w
      | (k, v) # rest \<Rightarrow>
          (Inl (TypeError (''DataLakeTransformer.__init__() got an unexpected keyword argument '' @
                           py_repr k)), w))"

text \<open>
  In the driver a date is its day number: the loop compares dates and adds one day.
  The text of a date (\<open>date_text\<close>), the clock and the identifiers drawn for each day are
  given from outside. A call of the method \<open>aggregate_silver_data\<close> binds exactly three
  positional arguments, which the method formats into strings; any other number is a
  \<open>TypeError\<close> (its message is abridged here).
\<close>

datatype pyval = PyStr string | PyDatetime int

record driver_env =
  date_text :: "int \<Rightarrow> string"
  now_at :: "int \<Rightarrow> datetime"
  uuid_at :: "int \<Rightarrow> nat"

definition py_str :: "driver_env \<Rightarrow> pyval \<Rightarrow> string" where
  "py_str denv v = (case v of PyStr s \<Rightarrow> s | PyDatetime d \<Rightarrow> date_text denv d @ '' 00:00:00'')"

definition call_aggregate_silver_data ::
  "driver_env \<Rightarrow> lake_env \<Rightarrow> transformer \<Rightarrow> pyval list \<Rightarrow> datetime \<Rightarrow> nat \<Rightarrow> duck world \<Rightarrow>
   (py_exception + unit) \<times> duck world" where
  "call_aggregate_silver_data denv env self args now uuid4 w =
     (case args of
        [a, b, c] \<Rightarrow>
          aggregate_silver_data env self (py_str denv a) (py_str denv b) (py_str denv c) now uuid4 w
      | _ \<Rightarrow>
          (Inl (TypeError (''DataLakeTransformer.aggregate_silver_data() takes 3 positional '' @
                           ''arguments, given '' @ dec (length args))), w))"

text \<open>The loop of \<open>main\<close> (run_batch_agg_data.py, lines 40-45).\<close>

function agg_loop ::
  "driver_env \<Rightarrow> lake_env \<Rightarrow> transformer \<Rightarrow> int \<Rightarrow> int \<Rightarrow> duck world \<Rightarrow>
   (py_exception + unit) \<times> duck world" where
  "agg_loop denv env self current_date end_date w =
     (if current_date \<le> end_date then
        (let w1 = logger INFO [Txt (''processing for day '' @ date_text denv current_date)] w in
         case call_aggregate_silver_data denv env self [PyDatetime current_date]
                (now_at denv current_date) (uuid_at denv current_date) w1 of
           (Inl e, w2) \<Rightarrow> (Inl e, w2)
         | (Inr u, w2) \<Rightarrow>
             agg_loop denv env self (current_date + 1) end_date
               (logger INFO [Txt (''Successfully aggregated bronze data for '' @
                                  date_text denv current_date @ '' 00:00:00'')] w2))
      else (Inr (), w))"
  by pat_completeness auto
termination
  by (relation "measure (\<lambda>(denv, env, self, current_date, end_date, w).
                  nat (end_date + 1 - current_date))") auto

declare agg_loop.simps [simp del]

text \<open>
  \<open>main\<close> (lines 21-47), after the two dates are parsed. \<open>parser.error\<close> leaves the
  process with status 2; otherwise \<open>main\<close> returns, whatever was raised inside \<open>try\<close>.
\<close>

datatype outcome = Returned | SystemExit nat

definition run_batch_agg_data_main ::
  "driver_env \<Rightarrow> lake_env \<Rightarrow> int \<Rightarrow> int \<Rightarrow> duck world \<Rightarrow> outcome \<times> duck world" where
  "run_batch_agg_data_main denv env start_date end_date w =
     (if end_date < start_date then (SystemExit 2, w)
      else
        (case (case DataLakeTransformer_call [(''dataset_base_path'', ''gharchive/events'')] env w of
                 (Inl e, w1) \<Rightarrow> (Inl e, w1)
               | (Inr transformer, w1) \<Rightarrow> agg_loop denv env transformer start_date end_date w1) of
           (Inl e, w') \<Rightarrow>
             (Returned, logger ERROR [Txt ''Error in aggregate_silver_data: '', StrOf e] w')
         | (Inr u, w') \<Rightarrow> (Returned, w')))"

section \<open>The raw fields, as the specification refers to them\<close>



















section \<open>Properties of the date formats\<close>

lemma dec_lt10: "n < 10 \<Longrightarrow> dec n = [digit_char n]"
  by (simp add: dec.simps)

lemma dec_lt100: "10 \<le> n \<Longrightarrow> n < 100 \<Longrightarrow> dec n = [digit_char (n div 10), digit_char n]"
  by (subst dec.simps) (simp add: dec_lt10)

lemma dec_lt1000: "100 \<le> n \<Longrightarrow> n < 1000 \<Longrightarrow>
   dec n = [digit_char (n div 100), digit_char (n div 10), digit_char n]"
  by (subst dec.simps) (simp add: dec_lt100 div_mult2_eq [symmetric])

lemma dec_lt10000: "1000 \<le> n \<Longrightarrow> n < 10000 \<Longrightarrow>
   dec n = [digit_char (n div 1000), digit_char (n div 100), digit_char (n div 10), digit_char n]"
  by (subst dec.simps) (simp add: dec_lt1000 div_mult2_eq [symmetric])

lemma digit_char_0: "digit_char 0 = CHR ''0''"
  by (simp add: digit_char_def)

lemma is_digit_digit_char: "is_digit (digit_char n)"
proof -
  have "n mod 10 < length ''0123456789''" by simp
  then have "''0123456789'' ! (n mod 10) \<in> set ''0123456789''" by (rule nth_mem)
  then show ?thesis by (simp only: is_digit_def digit_char_def)
qed

lemma dec_digits: "list_all is_digit (dec n)"
proof (induction n rule: dec.induct)
  case (1 n)
  show ?case
  proof (cases "n < 10")
    case True
    then show ?thesis by (simp add: dec_lt10 is_digit_digit_char)
  next
    case False
    with "1" have "list_all is_digit (dec (n div 10))" by simp
    with False show ?thesis
      by (subst dec.simps) (simp add: is_digit_digit_char)
  qed
qed

lemma pad2: "n < 100 \<Longrightarrow> zero_pad 2 (dec n) = [digit_char (n div 10), digit_char n]"
  by (cases "n < 10") (simp_all add: zero_pad_def dec_lt10 dec_lt100 digit_char_0)

lemma pad4:
  assumes n: "n < 10000"
  shows "zero_pad 4 (dec n) =
   [digit_char (n div 1000), digit_char (n div 100), digit_char (n div 10), digit_char n]"
proof -
  have r3: "replicate 3 (CHR ''0'') = ''000''" by (simp add: eval_nat_numeral)
  have r2: "replicate 2 (CHR ''0'') = ''00''" by (simp add: eval_nat_numeral)
  consider "n < 10" | "10 \<le> n" "n < 100" | "100 \<le> n" "n < 1000" | "1000 \<le> n"
    by linarith
  then show ?thesis
  proof cases
    case 1 then show ?thesis by (simp add: zero_pad_def dec_lt10 digit_char_0 r3)
  next
    case 2 then show ?thesis by (simp add: zero_pad_def dec_lt100 digit_char_0 r2)
  next
    case 3 then show ?thesis by (simp add: zero_pad_def dec_lt1000 digit_char_0)
  next
    case 4 then show ?thesis using n by (simp add: zero_pad_def dec_lt10000)
  qed
qed

lemma strftime_Ymd:
  "strftime dt (''%Y-%m-%d'' @ rest) =
     dec (year dt) @ ''-'' @ zero_pad 2 (dec (month dt)) @ ''-'' @
     zero_pad 2 (dec (day dt)) @ strftime dt rest"
  by (simp add: conversion_def)

lemma strftime_date:
  assumes "valid_datetime dt"
  shows "strftime dt (''%Y-%m-%d'' @ rest) = date_partition dt @ strftime dt rest"
proof -
  from assms have "month dt < 100" "day dt < 100"
    by (simp_all add: valid_datetime_def)
  then show ?thesis
    unfolding strftime_Ymd by (simp add: pad2 date_partition_def)
qed

lemma date_partition_four_digits:
  assumes "valid_datetime dt" "1000 \<le> year dt"
  shows "date_partition dt = spec_date dt"
proof -
  from assms have "year dt < 10000" by (simp add: valid_datetime_def)
  with assms(2) show ?thesis
    by (simp add: date_partition_def spec_date_def dec_lt10000)
qed

lemma date_partition_no_slash: "CHR ''/'' \<notin> set (date_partition dt)"
proof -
  have "\<not> is_digit (CHR ''/'')" by (simp add: is_digit_def)
  moreover have "\<forall>c \<in> set (dec (year dt)). is_digit c"
    using dec_digits [of "year dt"] by (simp add: list_all_iff)
  ultimately have "CHR ''/'' \<notin> set (dec (year dt))" by blast
  moreover have "CHR ''/'' \<noteq> digit_char k" for k
    using is_digit_digit_char [of k] \<open>\<not> is_digit (CHR ''/'')\<close> by auto
  ultimately show ?thesis
    by (simp add: date_partition_def)
qed

lemma strftime_H: "strftime dt ''%H'' = zero_pad 2 (dec (hour dt))"
  by (simp add: conversion_def)

lemma strftime_minus_H: "strftime dt ''-%-H'' = ''-'' @ dec (hour dt)"
  by (simp add: conversion_def)

lemma generate_sink_key_valid:
  assumes "valid_datetime dt"
  shows "generate_sink_key dt filename base =
     base @ ''/'' @ date_partition dt @ ''/'' @ spec_hour_padded (hour dt) @ ''/'' @ filename"
proof -
  from assms have h: "hour dt < 100" by (simp add: valid_datetime_def)
  have d: "strftime dt ''%Y-%m-%d'' = date_partition dt"
    using strftime_date [OF assms, of "[]"] by simp
  show ?thesis
    unfolding generate_sink_key_def Let_def d strftime_H
    by (simp add: pad2 [OF h] spec_hour_padded_def)
qed

lemma data_filename_valid:
  assumes "valid_datetime dt"
  shows "data_filename dt =
     date_partition dt @ ''-'' @ spec_hour_unpadded (hour dt) @ ''.json.gz''"
proof -
  from assms have h: "hour dt < 100" by (simp add: valid_datetime_def)
  have "strftime dt (''%Y-%m-%d'' @ ''-%-H'') = date_partition dt @ ''-'' @ dec (hour dt)"
    unfolding strftime_date [OF assms] strftime_minus_H by simp
  moreover have "dec (hour dt) = spec_hour_unpadded (hour dt)"
    using h by (cases "hour dt < 10") (simp_all add: spec_hour_unpadded_def dec_lt10 dec_lt100)
  ultimately show ?thesis
    by (simp add: data_filename_def date_hour_of_def)
qed

lemma tens_digit_nonzero:
  assumes "10 \<le> h" "h < 24"
  shows "digit_char (h div 10) \<noteq> CHR ''0''"
proof -
  from assms have "h div 10 = 1 \<or> h div 10 = 2" by linarith
  then show ?thesis by (auto simp: digit_char_def)
qed

lemma date_partition_2023:
  "date_partition \<lparr>year = 2023, month = 1, day = 1, hour = h, minute = 0, second = 0, microsecond = 0\<rparr>
     = ''2023-01-01''"
  by (simp add: date_partition_def dec_lt10000 digit_char_def)

lemma date_partition_999:
  "date_partition \<lparr>year = 999, month = 1, day = 1, hour = h, minute = 0, second = 0, microsecond = 0\<rparr>
     = ''999-01-01''"
  by (simp add: date_partition_def dec_lt1000 digit_char_def)

text \<open>
  \<^bold>\<open>C9\<close>, as the specification states it, fails for a process date before the year 1000,
  which the batch driver accepts (\<open>--start-date 0999-01-01\<close>): \<open>%Y\<close> does not pad the
  year, so at 0999-01-01T03:00 with the file name \<open>f\<close> and the base path \<open>b\<close> the key is
  \<open>b/999-01-01/03/f\<close>, whose date component is not of the form \<open>YYYY-MM-DD\<close>.
\<close>

theorem generate_sink_key_year_999_counterexample:
  "valid_datetime \<lparr>year = 999, month = 1, day = 1, hour = 3, minute = 0, second = 0, microsecond = 0\<rparr>
   \<and> generate_sink_key
       \<lparr>year = 999, month = 1, day = 1, hour = 3, minute = 0, second = 0, microsecond = 0\<rparr>
       ''f'' ''b'' = ''b/999-01-01/03/f''
   \<and> generate_sink_key
       \<lparr>year = 999, month = 1, day = 1, hour = 3, minute = 0, second = 0, microsecond = 0\<rparr>
       ''f'' ''b''
     \<noteq> ''b'' @ ''/'' @
       spec_date \<lparr>year = 999, month = 1, day = 1, hour = 3, minute = 0, second = 0, microsecond = 0\<rparr>
       @ ''/'' @ spec_hour_padded 3 @ ''/'' @ ''f''"
proof -
  let ?d = "\<lparr>year = 999, month = 1, day = 1, hour = 3, minute = 0, second = 0, microsecond = 0\<rparr>"
  have v: "valid_datetime ?d" by (simp add: valid_datetime_def)
  have k: "generate_sink_key ?d ''f'' ''b'' = ''b/999-01-01/03/f''"
    unfolding generate_sink_key_valid [OF v] date_partition_999
    by (simp add: spec_hour_padded_def digit_char_def)
  have s: "spec_date ?d = ''0999-01-01''"
    by (simp add: spec_date_def digit_char_def)
  show ?thesis using v unfolding k s by simp
qed

text \<open>
  \<^bold>\<open>C9\<close>, amended. For every process date, file name and base path,
  \<open>_generate_sink_key\<close> returns the key \<open>{base_path}/{date}/{HH}/{filename}\<close>, a function of
  its three arguments alone: the hour as two digits, padded with a zero, and the date as the
  year, the month in two digits and the day in two digits. For every process date from the
  year 1000 on the date is \<open>YYYY-MM-DD\<close> and the key is
  \<open>{base_path}/{YYYY-MM-DD}/{HH}/{filename}\<close>; in particular for 2023-01-01T09:00, the file
  name \<open>f.json.gz\<close> and the base path \<open>base\<close> it is \<open>base/2023-01-01/09/f.json.gz\<close>.
\<close>

theorem generate_sink_key_layout:
  assumes "valid_datetime dt"
  shows "generate_sink_key dt filename base =
           base @ ''/'' @ date_partition dt @ ''/'' @ spec_hour_padded (hour dt) @ ''/'' @ filename
         \<and> length (spec_hour_padded (hour dt)) = 2
         \<and> (1000 \<le> year dt \<longrightarrow>
              generate_sink_key dt filename base =
                base @ ''/'' @ spec_date dt @ ''/'' @ spec_hour_padded (hour dt) @ ''/'' @ filename
              \<and> length (spec_date dt) = 10)
         \<and> generate_sink_key
             \<lparr>year = 2023, month = 1, day = 1, hour = 9, minute = 0, second = 0, microsecond = 0\<rparr>
             ''f.json.gz'' ''base'' = ''base/2023-01-01/09/f.json.gz''"
proof -
  let ?d = "\<lparr>year = 2023, month = 1, day = 1, hour = 9, minute = 0, second = 0, microsecond = 0\<rparr>"
  have v: "valid_datetime ?d" by (simp add: valid_datetime_def)
  have e: "generate_sink_key ?d ''f.json.gz'' ''base'' = ''base/2023-01-01/09/f.json.gz''"
    unfolding generate_sink_key_valid [OF v] date_partition_2023
    by (simp add: spec_hour_padded_def digit_char_def)
  have a: "generate_sink_key dt filename base =
           base @ ''/'' @ date_partition dt @ ''/'' @ spec_hour_padded (hour dt) @ ''/'' @ filename"
    by (rule generate_sink_key_valid [OF assms])
  have b: "generate_sink_key dt filename base =
                base @ ''/'' @ spec_date dt @ ''/'' @ spec_hour_padded (hour dt) @ ''/'' @ filename
              \<and> length (spec_date dt) = 10" if "1000 \<le> year dt"
    using a date_partition_four_digits [OF assms that] by (simp add: spec_date_def)
  have c: "length (spec_hour_padded (hour dt)) = 2" by (simp add: spec_hour_padded_def)
  show ?thesis using a b c e by blast
qed

theorem generate_sink_key_layout_witness:
  "valid_datetime \<lparr>year = 2024, month = 12, day = 31, hour = 7, minute = 0, second = 0, microsecond = 0\<rparr>
   \<and> (1000::nat) \<le> 2024
   \<and> generate_sink_key
       \<lparr>year = 2024, month = 12, day = 31, hour = 7, minute = 0, second = 0, microsecond = 0\<rparr>
       ''2024-12-31-7.json.gz'' ''gharchive/events''
     = ''gharchive/events/2024-12-31/07/2024-12-31-7.json.gz''"
proof -
  let ?d = "\<lparr>year = 2024, month = 12, day = 31, hour = 7, minute = 0, second = 0, microsecond = 0\<rparr>"
  have v: "valid_datetime ?d" by (simp add: valid_datetime_def)
  show ?thesis
    using v generate_sink_key_layout [OF v, of "''2024-12-31-7.json.gz''" "''gharchive/events''"]
    by (simp add: date_partition_def dec_lt10000 spec_date_def spec_hour_padded_def digit_char_def)
qed

text \<open>
  \<^bold>\<open>C1.\<close> For every hour 0..23 and every date, the source file name that
  \<open>ingest_hourly_gharchive\<close> derives renders the hour without a leading zero (one digit
  below ten, otherwise two digits the first of which is not zero), while the sink key that
  \<open>_generate_sink_key\<close> derives for the same timestamp renders the hour as two digits,
  padded with a zero below ten, in the path segment after the date (the date holds no
  slash). Hour 3 gives \<open>...-3.json.gz\<close> and the segment \<open>/03/\<close>. The date is as the
  code renders it, whatever the year.
\<close>

theorem source_hour_unpadded_sink_hour_padded:
  assumes "valid_datetime dt"
  shows "data_filename dt =
           date_partition dt @ ''-'' @ spec_hour_unpadded (hour dt) @ ''.json.gz''
         \<and> generate_sink_key dt (data_filename dt) base =
             base @ ''/'' @ date_partition dt @ ''/'' @ spec_hour_padded (hour dt) @ ''/'' @
             data_filename dt
         \<and> CHR ''/'' \<notin> set (date_partition dt)
         \<and> length (spec_hour_padded (hour dt)) = 2
         \<and> (if hour dt < 10
             then spec_hour_unpadded (hour dt) = [digit_char (hour dt)]
                  \<and> spec_hour_padded (hour dt) = [CHR ''0'', digit_char (hour dt)]
             else spec_hour_unpadded (hour dt) = spec_hour_padded (hour dt)
                  \<and> hd (spec_hour_unpadded (hour dt)) \<noteq> CHR ''0'')
         \<and> spec_hour_unpadded 3 = ''3'' \<and> spec_hour_padded 3 = ''03''"
proof -
  have a: "data_filename dt =
      date_partition dt @ ''-'' @ spec_hour_unpadded (hour dt) @ ''.json.gz''"
    by (rule data_filename_valid [OF assms])
  have b: "generate_sink_key dt (data_filename dt) base =
      base @ ''/'' @ date_partition dt @ ''/'' @ spec_hour_padded (hour dt) @ ''/'' @
      data_filename dt"
    by (rule generate_sink_key_valid [OF assms])
  from assms have h: "hour dt < 24" by (simp add: valid_datetime_def)
  have c: "if hour dt < 10
             then spec_hour_unpadded (hour dt) = [digit_char (hour dt)]
                  \<and> spec_hour_padded (hour dt) = [CHR ''0'', digit_char (hour dt)]
             else spec_hour_unpadded (hour dt) = spec_hour_padded (hour dt)
                  \<and> hd (spec_hour_unpadded (hour dt)) \<noteq> CHR ''0''"
    using h tens_digit_nonzero [of "hour dt"]
    by (simp add: spec_hour_unpadded_def spec_hour_padded_def digit_char_0)
  have e: "spec_hour_unpadded 3 = ''3'' \<and> spec_hour_padded 3 = ''03''"
    by (simp add: spec_hour_unpadded_def spec_hour_padded_def digit_char_def)
  have l: "length (spec_hour_padded (hour dt)) = 2" by (simp add: spec_hour_padded_def)
  show ?thesis using a b c e l date_partition_no_slash [of dt] by blast
qed

theorem source_hour_unpadded_sink_hour_padded_witness:
  "valid_datetime \<lparr>year = 2023, month = 1, day = 1, hour = 3, minute = 0, second = 0, microsecond = 0\<rparr>
   \<and> data_filename
       \<lparr>year = 2023, month = 1, day = 1, hour = 3, minute = 0, second = 0, microsecond = 0\<rparr>
     = ''2023-01-01-3.json.gz''
   \<and> generate_sink_key
       \<lparr>year = 2023, month = 1, day = 1, hour = 3, minute = 0, second = 0, microsecond = 0\<rparr>
       (data_filename
         \<lparr>year = 2023, month = 1, day = 1, hour = 3, minute = 0, second = 0, microsecond = 0\<rparr>)
       ''gharchive/events''
     = ''gharchive/events/2023-01-01/03/2023-01-01-3.json.gz''"
proof -
  let ?d = "\<lparr>year = 2023, month = 1, day = 1, hour = 3, minute = 0, second = 0, microsecond = 0\<rparr>"
  have v: "valid_datetime ?d" by (simp add: valid_datetime_def)
  note t = source_hour_unpadded_sink_hour_padded [OF v, of "''gharchive/events''"]
  have f: "data_filename ?d = ''2023-01-01-3.json.gz''"
    using t unfolding date_partition_2023
    by (simp add: spec_hour_unpadded_def digit_char_def)
  have k: "generate_sink_key ?d (data_filename ?d) ''gharchive/events''
      = ''gharchive/events/2023-01-01/03/2023-01-01-3.json.gz''"
    using t unfolding f date_partition_2023
    by (simp add: spec_hour_padded_def digit_char_def)
  show ?thesis using v f k by simp
qed

section \<open>Properties of the export file names\<close>

lemma strftime_stamp:
  "strftime dt ''%Y%m%d%H%M%S'' = dec (year dt) @ zero_pad 2 (dec (month dt)) @
     zero_pad 2 (dec (day dt)) @ zero_pad 2 (dec (hour dt)) @ zero_pad 2 (dec (minute dt)) @
     zero_pad 2 (dec (second dt))"
  by (simp add: conversion_def)

lemma strftime_stamp_valid:
  assumes "valid_datetime dt" "1000 \<le> year dt"
  shows "strftime dt ''%Y%m%d%H%M%S'' = spec_timestamp dt"
proof -
  from assms have "year dt < 10000" "month dt < 100" "day dt < 100" "hour dt < 100"
    "minute dt < 100" "second dt < 100"
    by (simp_all add: valid_datetime_def)
  then show ?thesis
    using assms(2) unfolding strftime_stamp by (simp add: dec_lt10000 pad2 spec_timestamp_def)
qed

lemma spec_timestamp_digits: "length (spec_timestamp dt) = 14 \<and> list_all is_digit (spec_timestamp dt)"
  by (simp add: spec_timestamp_def is_digit_digit_char)

lemma length_zero_pad: "length (zero_pad w s) = max w (length s)"
  by (simp add: zero_pad_def)

lemma length_short_id: "length (take 8 (str_uuid u)) = 8"
  by (simp add: str_uuid_def Let_def length_zero_pad)

lemma short_id_eq: "take 8 (str_uuid u) = take 8 (zero_pad 32 (hex u))"
  by (simp add: str_uuid_def Let_def length_zero_pad)

lemma hex_uuid_example:
  "hex 24249434048109257320608360044760088576 = ''123e4567e89b42d3a456426614174000''"
  by (simp add: hex.simps hex_char_def)

lemma short_id_example: "take 8 (str_uuid 24249434048109257320608360044760088576) = ''123e4567''"
  unfolding short_id_eq hex_uuid_example by (simp add: zero_pad_def)

lemma stamp_example:
  "strftime \<lparr>year = 2023, month = 1, day = 1, hour = 9, minute = 0, second = 0, microsecond = 0\<rparr>
     ''%Y%m%d%H%M%S'' = ''20230101090000''"
proof -
  let ?d = "\<lparr>year = 2023, month = 1, day = 1, hour = 9, minute = 0, second = 0, microsecond = 0\<rparr>"
  have v: "valid_datetime ?d" by (simp add: valid_datetime_def)
  have y: "1000 \<le> year ?d" by simp
  show ?thesis
    unfolding strftime_stamp_valid [OF v y] by (simp add: spec_timestamp_def digit_char_def)
qed

text \<open>
  \<^bold>\<open>C6\<close>, as the specification states it, fails: a partition key is placed after the
  timestamp (position 2 of the parts), not before it. At the stage \<open>clean\<close>, the
  partition key \<open>2023-01-01\<close>, the clock 2023-01-01 09:00:00 and the identifier
  \<open>123e4567-e89b-42d3-a456-426614174000\<close> the name is
  \<open>clean_20230101090000_2023-01-01_123e4567.parquet\<close>, which is not
  \<open>clean_2023-01-01_20230101090000_123e4567.parquet\<close>.
\<close>

theorem export_filename_partition_key_counterexample:
  "generate_export_filename ''clean'' ''parquet'' (Some ''2023-01-01'')
     \<lparr>year = 2023, month = 1, day = 1, hour = 9, minute = 0, second = 0, microsecond = 0\<rparr>
     24249434048109257320608360044760088576
   = ''clean_20230101090000_2023-01-01_123e4567.parquet''
   \<and> generate_export_filename ''clean'' ''parquet'' (Some ''2023-01-01'')
     \<lparr>year = 2023, month = 1, day = 1, hour = 9, minute = 0, second = 0, microsecond = 0\<rparr>
     24249434048109257320608360044760088576
   \<noteq> ''clean'' @ ''_'' @ ''2023-01-01'' @ ''_'' @ ''20230101090000'' @ ''_'' @ ''123e4567'' @ ''.parquet''"
  unfolding generate_export_filename_def Let_def stamp_example short_id_example
  by (simp add: truthy_def list_insert_def)

text \<open>
  \<^bold>\<open>C6\<close>, amended. For every stage (data type), clock value (the clock
  \<open>datetime.now()\<close> is never before the year 1000) and identifier, the name
  that \<open>_generate_export_filename\<close> generates with the extension \<open>parquet\<close> is
  \<open>{stage}_{timestamp}_{shortid}.parquet\<close> when the partition key is absent or empty, and
  \<open>{stage}_{timestamp}_{partition_key}_{shortid}.parquet\<close> when it is a non-empty string:
  the partition key stands after the timestamp, before the short identifier. The
  timestamp is the 14 digits \<open>YYYYMMDDHHMMSS\<close> and the short identifier is the first 8
  hexadecimal digits of the identifier. \<open>_create_sink_path\<close> passes no partition key and
  returns \<open>s3://{bucket}/{key_path}/{stage}_{timestamp}_{shortid}.parquet\<close>.
\<close>

theorem export_filename_layout:
  assumes "valid_datetime now" "1000 \<le> year now"
  shows "generate_export_filename data_type ''parquet'' partition_key now uuid4 =
           (if truthy partition_key
            then data_type @ ''_'' @ spec_timestamp now @ ''_'' @ the partition_key @ ''_'' @
                 take 8 (zero_pad 32 (hex uuid4)) @ ''.parquet''
            else data_type @ ''_'' @ spec_timestamp now @ ''_'' @
                 take 8 (zero_pad 32 (hex uuid4)) @ ''.parquet'')
         \<and> length (spec_timestamp now) = 14 \<and> list_all is_digit (spec_timestamp now)
         \<and> length (take 8 (zero_pad 32 (hex uuid4))) = 8
         \<and> create_sink_path data_type sink_bucket sink_key_path now uuid4 =
             ''s3://'' @ sink_bucket @ ''/'' @ sink_key_path @ ''/'' @ data_type @ ''_'' @
             spec_timestamp now @ ''_'' @ take 8 (zero_pad 32 (hex uuid4)) @ ''.parquet''"
proof -
  have g: "generate_export_filename data_type ''parquet'' pk now uuid4 =
           (if truthy pk
            then data_type @ ''_'' @ spec_timestamp now @ ''_'' @ the pk @ ''_'' @
                 take 8 (zero_pad 32 (hex uuid4)) @ ''.parquet''
            else data_type @ ''_'' @ spec_timestamp now @ ''_'' @
                 take 8 (zero_pad 32 (hex uuid4)) @ ''.parquet'')" for pk
    unfolding generate_export_filename_def Let_def strftime_stamp_valid [OF assms] short_id_eq
    by (simp add: list_insert_def)
  have l: "length (take 8 (zero_pad 32 (hex uuid4))) = 8"
    by (simp add: length_zero_pad)
  have c: "create_sink_path data_type sink_bucket sink_key_path now uuid4 =
             ''s3://'' @ sink_bucket @ ''/'' @ sink_key_path @ ''/'' @ data_type @ ''_'' @
             spec_timestamp now @ ''_'' @ take 8 (zero_pad 32 (hex uuid4)) @ ''.parquet''"
    unfolding create_sink_path_def Let_def g by (simp add: truthy_def)
  show ?thesis using g [of partition_key] l c spec_timestamp_digits [of now] by simp
qed


theorem export_filename_layout_witness:
  "valid_datetime \<lparr>year = 2023, month = 1, day = 1, hour = 9, minute = 0, second = 0, microsecond = 0\<rparr>
   \<and> (1000::nat) \<le> 2023
   \<and> truthy (Some ''p'')
   \<and> generate_export_filename ''agg'' ''parquet'' (Some ''p'')
       \<lparr>year = 2023, month = 1, day = 1, hour = 9, minute = 0, second = 0, microsecond = 0\<rparr>
       24249434048109257320608360044760088576
     = ''agg_20230101090000_p_123e4567.parquet''
   \<and> create_sink_path ''agg'' ''bucket'' ''gharchive/agg''
       \<lparr>year = 2023, month = 1, day = 1, hour = 9, minute = 0, second = 0, microsecond = 0\<rparr>
       24249434048109257320608360044760088576
     = ''s3://bucket/gharchive/agg/agg_20230101090000_123e4567.parquet''"
proof -
  let ?d = "\<lparr>year = 2023, month = 1, day = 1, hour = 9, minute = 0, second = 0, microsecond = 0\<rparr>"
  have v: "valid_datetime ?d" by (simp add: valid_datetime_def)
  have t: "truthy (Some ''p'')" by (simp add: truthy_def)
  have s: "spec_timestamp ?d = ''20230101090000''"
    by (simp add: spec_timestamp_def digit_char_def)
  have i: "take 8 (zero_pad 32 (hex 24249434048109257320608360044760088576)) = ''123e4567''"
    unfolding hex_uuid_example by (simp add: zero_pad_def)
  have y: "1000 \<le> year ?d" by simp
  note e = export_filename_layout [OF v y, of "''agg''" "Some ''p''"
      "24249434048109257320608360044760088576" "''bucket''" "''gharchive/agg''"]
  show ?thesis using v t e unfolding s i by simp
qed

section \<open>Properties of the HTTP collector\<close>

lemma collect_200:
  assumes "requests_get url = Inr r" "status_code r = 200"
  shows "fst (collect requests_get url w) = Inr (Some (BytesIO (content r)))"
  using assms by (simp add: collect_def Let_def)

lemma collect_4xx_5xx:
  assumes "requests_get url = Inr r" "400 \<le> status_code r" "status_code r < 600"
  shows "fst (collect requests_get url w) = Inl (HTTPError (status_code r))"
  using assms by (simp add: collect_def Let_def raise_for_status_def)

lemma collect_stream:
  assumes "requests_get url = Inr r" "fst (collect requests_get url w) = Inr (Some s)"
  shows "status_code r = 200 \<and> s = BytesIO (content r)"
  using assms by (auto simp: collect_def Let_def split: if_splits sum.splits)

lemma collect_keeps_sink:
  "sink (snd (collect requests_get url w)) = sink w \<and>
   boto3_calls (snd (collect requests_get url w)) = boto3_calls w"
  by (simp add: collect_def Let_def logger_def split: sum.splits)

text \<open>
  \<^bold>\<open>C4\<close>, as the specification states it, fails on both sides. The collector accepts the
  status code 200 alone: at 204, a code of the 2xx range, it returns no stream (it returns
  \<open>None\<close>); and at 304, a code outside the 2xx range, it raises nothing, since
  \<open>raise_for_status\<close> raises from 400 on only.
\<close>

theorem collect_2xx_counterexample:
  "fst (collect (\<lambda>u. Inr \<lparr>status_code = 204, content = [1, 2, 3]\<rparr>)
         ''http://data.gharchive.org/2023-01-01-3.json.gz''
         \<lparr>log = [], boto3_calls = [], sink = ()\<rparr>) = Inr None
   \<and> fst (collect (\<lambda>u. Inr \<lparr>status_code = 304, content = [1, 2, 3]\<rparr>)
         ''http://data.gharchive.org/2023-01-01-3.json.gz''
         \<lparr>log = [], boto3_calls = [], sink = ()\<rparr>) = Inr None"
  by (simp add: collect_def Let_def raise_for_status_def)

text \<open>
  \<^bold>\<open>C4\<close>, amended. For every HTTP response, \<open>HttpDataCollector.collect\<close> returns an
  in-memory byte stream, positioned at its start and holding the full response body, when
  the status code is 200; for every status code from 400 to 599 it fails with an
  \<open>HTTPError\<close> that carries that status code; and whenever it returns a stream, the
  status code was 200 and the stream holds the full body, so no partial stream is ever
  returned.
\<close>

theorem collect_status_200_or_error:
  assumes "requests_get url = Inr r"
  shows "(status_code r = 200 \<longrightarrow>
            (\<exists>s. fst (collect requests_get url w) = Inr (Some s) \<and>
                 getvalue s = content r \<and> pos s = 0))
         \<and> (400 \<le> status_code r \<and> status_code r < 600 \<longrightarrow>
              fst (collect requests_get url w) = Inl (HTTPError (status_code r)))
         \<and> (\<forall>s. fst (collect requests_get url w) = Inr (Some s) \<longrightarrow>
              status_code r = 200 \<and> getvalue s = content r)"
proof (intro conjI impI allI)
  assume "status_code r = 200"
  then have "fst (collect requests_get url w) = Inr (Some (BytesIO (content r)))"
    using assms by (simp add: collect_200)
  then show "\<exists>s. fst (collect requests_get url w) = Inr (Some s) \<and>
                 getvalue s = content r \<and> pos s = 0"
    by (simp add: BytesIO_def getvalue_def)
next
  assume "400 \<le> status_code r \<and> status_code r < 600"
  then show "fst (collect requests_get url w) = Inl (HTTPError (status_code r))"
    using assms by (simp add: collect_4xx_5xx)
next
  fix s assume "fst (collect requests_get url w) = Inr (Some s)"
  from collect_stream [OF assms this] show "status_code r = 200" by simp
next
  fix s assume "fst (collect requests_get url w) = Inr (Some s)"
  from collect_stream [OF assms this] show "getvalue s = content r"
    by (simp add: BytesIO_def getvalue_def)
qed

theorem collect_status_200_or_error_witness:
  "fst (collect (\<lambda>u. Inr \<lparr>status_code = 200, content = [31, 139, 8]\<rparr>) ''http://h/f''
         \<lparr>log = [], boto3_calls = [], sink = ()\<rparr>)
     = Inr (Some \<lparr>buffer = [31, 139, 8], pos = 0\<rparr>)
   \<and> fst (collect (\<lambda>u. Inr \<lparr>status_code = 404, content = []\<rparr>) ''http://h/f''
         \<lparr>log = [], boto3_calls = [], sink = ()\<rparr>)
     = Inl (HTTPError 404)"
proof -
  let ?w = "\<lparr>log = [], boto3_calls = [], sink = ()\<rparr>"
  let ?ok = "\<lparr>status_code = 200, content = [31, 139, 8]\<rparr>"
  let ?nf = "\<lparr>status_code = 404, content = []\<rparr>"
  have "\<exists>s. fst (collect (\<lambda>u. Inr ?ok) ''http://h/f'' ?w) = Inr (Some s) \<and>
            getvalue s = content ?ok \<and> pos s = 0"
    using collect_status_200_or_error [of "\<lambda>u. Inr ?ok" "''http://h/f''" ?ok ?w] by simp
  then have a: "fst (collect (\<lambda>u. Inr ?ok) ''http://h/f'' ?w)
      = Inr (Some \<lparr>buffer = [31, 139, 8], pos = 0\<rparr>)"
    by (auto simp: getvalue_def)
  have b: "fst (collect (\<lambda>u. Inr ?nf) ''http://h/f'' ?w) = Inl (HTTPError 404)"
    using collect_status_200_or_error [of "\<lambda>u. Inr ?nf" "''http://h/f''" ?nf ?w] by simp
  show ?thesis using a b by simp
qed

section \<open>Properties of the ingester\<close>

text \<open>
  \<^bold>\<open>C8.\<close> For every timestamp, if the collector's \<open>collect\<close> fails inside
  \<open>ingest_hourly_gharchive\<close>, the failure is propagated as it is, after one error record
  that names the failed timestamp is logged; the storage's \<open>store\<close> is not invoked (the
  outcome is the same for every storage), and the ingester leaves the sink and the
  storage clients as the collector left them, which for the HTTP collector is as they were
  before the call.
\<close>

theorem ingest_collect_failure:
  assumes "the_collector (data_url process_date) w = (Inl e, w1)"
  shows "ingest_hourly_gharchive the_collector the_storage base process_date w =
           (Inl e, w1\<lparr>log := log w1 @
              [(ERROR, [Txt (''Failed to ingest data for '' @ str_datetime process_date @ '': ''),
                        StrOf e])]\<rparr>)
         \<and> (\<forall>other_storage.
              ingest_hourly_gharchive the_collector other_storage base process_date w =
              ingest_hourly_gharchive the_collector the_storage base process_date w)
         \<and> sink (snd (ingest_hourly_gharchive the_collector the_storage base process_date w))
             = sink w1
         \<and> (\<forall>requests_get. the_collector = collect requests_get \<longrightarrow>
              sink (snd (ingest_hourly_gharchive the_collector the_storage base process_date w))
                = sink w)"
proof -
  have r: "ingest_hourly_gharchive the_collector st base process_date w =
           (Inl e, w1\<lparr>log := log w1 @ [ingest_failed process_date e]\<rparr>)" for st
    using assms by (simp add: ingest_hourly_gharchive_def Let_def)
  have r': "ingest_hourly_gharchive the_collector the_storage base process_date w =
           (Inl e, w1\<lparr>log := log w1 @
              [(ERROR, [Txt (''Failed to ingest data for '' @ str_datetime process_date @ '': ''),
                        StrOf e])]\<rparr>)"
    using r [of the_storage] by (simp add: ingest_failed_def)
  have o: "\<forall>other_storage.
              ingest_hourly_gharchive the_collector other_storage base process_date w =
              ingest_hourly_gharchive the_collector the_storage base process_date w"
    using r by simp
  have s1: "sink (snd (ingest_hourly_gharchive the_collector the_storage base process_date w))
             = sink w1"
    using r [of the_storage] by simp
  have s2: "\<forall>requests_get. the_collector = collect requests_get \<longrightarrow>
              sink (snd (ingest_hourly_gharchive the_collector the_storage base process_date w))
                = sink w"
  proof (intro allI impI)
    fix requests_get
    assume a: "the_collector = collect requests_get"
    have "sink (snd (collect requests_get (data_url process_date) w)) = sink w"
      by (simp add: collect_keeps_sink)
    with a assms have "sink w1 = sink w" by simp
    with s1 show "sink (snd (ingest_hourly_gharchive the_collector the_storage base process_date w))
                = sink w" by simp
  qed
  show ?thesis using r' o s1 s2 by blast
qed

lemma str_datetime_example:
  "str_datetime \<lparr>year = 2023, month = 1, day = 1, hour = 3, minute = 0, second = 0, microsecond = 0\<rparr>
     = ''2023-01-01 03:00:00''"
  by (simp add: str_datetime_def pad4 pad2 digit_char_def)

lemma data_url_example:
  "data_url \<lparr>year = 2023, month = 1, day = 1, hour = 3, minute = 0, second = 0, microsecond = 0\<rparr>
     = ''http://data.gharchive.org/2023-01-01-3.json.gz''"
proof -
  let ?d = "\<lparr>year = 2023, month = 1, day = 1, hour = 3, minute = 0, second = 0, microsecond = 0\<rparr>"
  have v: "valid_datetime ?d" by (simp add: valid_datetime_def)
  show ?thesis
    unfolding data_url_def data_filename_valid [OF v]
    by (simp add: date_partition_def dec_lt10000 spec_hour_unpadded_def digit_char_def)
qed

theorem ingest_collect_failure_witness:
  "ingest_hourly_gharchive
     (collect (\<lambda>u. Inr \<lparr>status_code = 404, content = []\<rparr>))
     (\<lambda>data key w. (Inr (), w\<lparr>sink := (key, data) # sink w\<rparr>))
     ''gharchive/events''
     \<lparr>year = 2023, month = 1, day = 1, hour = 3, minute = 0, second = 0, microsecond = 0\<rparr>
     \<lparr>log = [], boto3_calls = [], sink = []\<rparr>
   = (Inl (HTTPError 404),
      \<lparr>log = [(INFO, [Txt ''Downloading data from: http://data.gharchive.org/2023-01-01-3.json.gz'']),
              (ERROR, [Txt (''Failed to download file from http://data.gharchive.org/2023-01-01-3.json.gz'' @
                            ''. Status code: 404'')]),
              (ERROR, [Txt ''Failed to ingest data for 2023-01-01 03:00:00: '', StrOf (HTTPError 404)])],
       boto3_calls = [], sink = []\<rparr>)"
proof -
  let ?d = "\<lparr>year = 2023, month = 1, day = 1, hour = 3, minute = 0, second = 0, microsecond = 0\<rparr>"
  let ?w = "\<lparr>log = [], boto3_calls = [], sink = []\<rparr> :: (string \<times> bytesio option) list world"
  let ?c = "collect (\<lambda>u. Inr \<lparr>status_code = 404, content = []\<rparr>)
              :: (string \<times> bytesio option) list collector"
  have d404: "dec 404 = ''404''"
    by (simp add: dec_lt1000 digit_char_def)
  have c: "?c (data_url ?d) ?w =
      (Inl (HTTPError 404),
       \<lparr>log = [(INFO, [Txt ''Downloading data from: http://data.gharchive.org/2023-01-01-3.json.gz'']),
               (ERROR, [Txt (''Failed to download file from http://data.gharchive.org/2023-01-01-3.json.gz'' @
                            ''. Status code: 404'')])],
        boto3_calls = [], sink = []\<rparr>)"
    unfolding data_url_example
    by (simp add: collect_def Let_def raise_for_status_def logger_def d404)
  show ?thesis
    using ingest_collect_failure [where the_collector = ?c and process_date = ?d and w = ?w
        and the_storage = "\<lambda>data key w. (Inr (), w\<lparr>sink := (key, data) # sink w\<rparr>)"
        and base = "''gharchive/events''", OF c]
    unfolding str_datetime_example by simp
qed

section \<open>Properties of the construction of the ingester\<close>













section \<open>Properties of grouping and of result lists\<close>















lemma collect_results_map_Inr: "collect_results (map Inr ys) = Inr ys"
  by (induction ys) auto

section \<open>Properties of the aggregation batch driver\<close>

lemma call_rejects_keyword:
  "DataLakeTransformer_call [(''dataset_base_path'', ''gharchive/events'')] env w =
     (Inl (TypeError (''DataLakeTransformer.__init__() got an unexpected keyword argument '' @
                      py_repr ''dataset_base_path'')), w)"
  by (simp add: DataLakeTransformer_call_def)

text \<open>
  \<^bold>\<open>C10.\<close> For every start date and end date with start \<open>\<le>\<close> end, the aggregation
  batch driver performs no aggregation: constructing \<open>DataLakeTransformer\<close> with the
  keyword \<open>dataset_base_path\<close>, which \<open>__init__\<close> does not accept, raises \<open>TypeError\<close>;
  \<open>main\<close> logs that error and returns, the session and the lake are as they were, and the
  outcome is the same whatever the engine and the lake would have answered, since
  \<open>aggregate_silver_data\<close> is never called.
\<close>

theorem batch_agg_never_aggregates:
  assumes "start_date \<le> end_date"
  shows "DataLakeTransformer_call [(''dataset_base_path'', ''gharchive/events'')] env w =
           (Inl (TypeError (''DataLakeTransformer.__init__() got an unexpected keyword argument '' @
                            py_repr ''dataset_base_path'')), w)
         \<and> run_batch_agg_data_main denv env start_date end_date w =
             (Returned,
              w\<lparr>log := log w @
                 [(ERROR, [Txt ''Error in aggregate_silver_data: '',
                           StrOf (TypeError
                             (''DataLakeTransformer.__init__() got an unexpected keyword argument '' @
                              py_repr ''dataset_base_path''))])]\<rparr>)
         \<and> sink (snd (run_batch_agg_data_main denv env start_date end_date w)) = sink w
         \<and> (\<forall>denv' env'. run_batch_agg_data_main denv' env' start_date end_date w =
                          run_batch_agg_data_main denv env start_date end_date w)"
proof -
  have m: "run_batch_agg_data_main d v start_date end_date w =
             (Returned,
              w\<lparr>log := log w @
                 [(ERROR, [Txt ''Error in aggregate_silver_data: '',
                           StrOf (TypeError
                             (''DataLakeTransformer.__init__() got an unexpected keyword argument '' @
                              py_repr ''dataset_base_path''))])]\<rparr>)" for d v
    using assms
    by (simp add: run_batch_agg_data_main_def call_rejects_keyword logger_def)
  have s: "sink (snd (run_batch_agg_data_main denv env start_date end_date w)) = sink w"
    by (simp add: m)
  have i: "\<forall>denv' env'. run_batch_agg_data_main denv' env' start_date end_date w =
                          run_batch_agg_data_main denv env start_date end_date w"
    by (simp add: m)
  show ?thesis using call_rejects_keyword [of env w] m [of denv env] s i by blast
qed

theorem batch_agg_never_aggregates_witness:
  "(0::int) \<le> 2
   \<and> run_batch_agg_data_main
       \<lparr>date_text = (\<lambda>d. ''2023-01-0'' @ dec (nat (d + 1))),
        now_at = (\<lambda>d. \<lparr>year = 2023, month = 1, day = 1, hour = 9, minute = 0, second = 0,
                       microsecond = 0\<rparr>),
        uuid_at = (\<lambda>d. 7)\<rparr>
       \<lparr>read_json_auto = (\<lambda>p. Inr \<lparr>columns = [], rows = []\<rparr>),
        replacement_scan = (\<lambda>p. Inr \<lparr>columns = [], rows = []\<rparr>),
        parquet_error = (\<lambda>p. None), parse_timestamp = (\<lambda>s. None), connection_error = None\<rparr>
       0 2
       \<lparr>log = [], boto3_calls = [], sink = \<lparr>tables = [], exported = []\<rparr>\<rparr>
     = (Returned,
        \<lparr>log = [(ERROR, [Txt ''Error in aggregate_silver_data: '',
                  StrOf (TypeError (''DataLakeTransformer.__init__() got an unexpected keyword argument '' @
                                    [CHR 0x27] @ ''dataset_base_path'' @ [CHR 0x27]))])],
         boto3_calls = [], sink = \<lparr>tables = [], exported = []\<rparr>\<rparr>)"
proof -
  have h: "(0::int) \<le> 2" by simp
  show ?thesis
    using h batch_agg_never_aggregates [OF h,
        of "\<lparr>read_json_auto = (\<lambda>p. Inr \<lparr>columns = [], rows = []\<rparr>),
        replacement_scan = (\<lambda>p. Inr \<lparr>columns = [], rows = []\<rparr>),
        parquet_error = (\<lambda>p. None), parse_timestamp = (\<lambda>s. None), connection_error = None\<rparr>"
           "\<lparr>log = [], boto3_calls = [], sink = \<lparr>tables = [], exported = []\<rparr>\<rparr>"
           "\<lparr>date_text = (\<lambda>d. ''2023-01-0'' @ dec (nat (d + 1))),
        now_at = (\<lambda>d. \<lparr>year = 2023, month = 1, day = 1, hour = 9, minute = 0, second = 0,
                       microsecond = 0\<rparr>),
        uuid_at = (\<lambda>d. 7)\<rparr>"]
    by (simp add: py_repr_def)
qed

section \<open>The exception handler of the transformer\<close>

lemma except_handler_without_logger:
  "except_handler fname \<lparr>attrs = [(''con'', Connection)]\<rparr> e w =
     (Inl (AttributeError (py_repr ''DataLakeTransformer'' @ '' object has no attribute '' @
                           py_repr ''logger'')), w)"
  by (simp add: except_handler_def getattr_def)

text \<open>
  \<^bold>\<open>C5\<close> says that a failure inside \<open>serialise_raw_data\<close> or \<open>aggregate_silver_data\<close> is
  logged and re-raised unmodified. The handlers read \<open>self.logger\<close>, an attribute that
  \<open>__init__\<close> never sets. On a transformer as \<open>__init__\<close> builds it, with a source path
  that the engine cannot read (an \<open>IOException\<close>), both calls raise \<open>AttributeError\<close>
  in place of the \<open>IOException\<close>, and no error record reaches the log.
\<close>

theorem handler_raises_attribute_error:
  "DataLakeTransformer_init
     \<lparr>read_json_auto = (\<lambda>p. Inl (IOException ''No files found that match the pattern'')),
      replacement_scan = (\<lambda>p. Inl (IOException ''No files found that match the pattern'')),
      parquet_error = (\<lambda>p. None), parse_timestamp = (\<lambda>s. None), connection_error = None\<rparr>
     \<lparr>log = [], boto3_calls = [], sink = \<lparr>tables = [], exported = []\<rparr>\<rparr>
   = (Inr \<lparr>attrs = [(''con'', Connection)]\<rparr>,
      \<lparr>log = [], boto3_calls = [], sink = \<lparr>tables = [], exported = []\<rparr>\<rparr>)
   \<and> serialise_raw_data
       \<lparr>read_json_auto = (\<lambda>p. Inl (IOException ''No files found that match the pattern'')),
        replacement_scan = (\<lambda>p. Inl (IOException ''No files found that match the pattern'')),
        parquet_error = (\<lambda>p. None), parse_timestamp = (\<lambda>s. None), connection_error = None\<rparr>
       \<lparr>attrs = [(''con'', Connection)]\<rparr>
       ''s3://bronze/none/*'' ''silver'' ''gharchive/clean''
       \<lparr>year = 2023, month = 1, day = 1, hour = 9, minute = 0, second = 0, microsecond = 0\<rparr> 7
       \<lparr>log = [], boto3_calls = [], sink = \<lparr>tables = [], exported = []\<rparr>\<rparr>
     = (Inl (AttributeError (py_repr ''DataLakeTransformer'' @ '' object has no attribute '' @
                             py_repr ''logger'')),
        \<lparr>log = [(INFO, [Txt ''DuckDB - collect source data files: s3://bronze/none/*''])],
         boto3_calls = [], sink = \<lparr>tables = [], exported = []\<rparr>\<rparr>)
   \<and> aggregate_silver_data
       \<lparr>read_json_auto = (\<lambda>p. Inl (IOException ''No files found that match the pattern'')),
        replacement_scan = (\<lambda>p. Inl (IOException ''No files found that match the pattern'')),
        parquet_error = (\<lambda>p. None), parse_timestamp = (\<lambda>s. None), connection_error = None\<rparr>
       \<lparr>attrs = [(''con'', Connection)]\<rparr>
       ''s3://silver/none/*'' ''gold'' ''gharchive/agg''
       \<lparr>year = 2023, month = 1, day = 1, hour = 9, minute = 0, second = 0, microsecond = 0\<rparr> 7
       \<lparr>log = [], boto3_calls = [], sink = \<lparr>tables = [], exported = []\<rparr>\<rparr>
     = (Inl (AttributeError (py_repr ''DataLakeTransformer'' @ '' object has no attribute '' @
                             py_repr ''logger'')),
        \<lparr>log = [(INFO, [Txt ''DuckDB - aggregate raw data in s3://silver/none/*''])],
         boto3_calls = [], sink = \<lparr>tables = [], exported = []\<rparr>\<rparr>)"
  by (simp add: DataLakeTransformer_init_def serialise_raw_data_def aggregate_silver_data_def
      register_raw_gharchive_def aggregate_raw_gharchive_def resolve_def except_handler_def
      getattr_def logger_def Let_def)

section \<open>Properties of the cleaning projection\<close>























section \<open>Properties of the daily aggregation\<close>

lemma trunc_of_day: "d * micros_per_day - d * micros_per_day mod micros_per_day = d * micros_per_day"
  by simp

















end
